theory Spec2Isabelle
  imports Complex_Main
begin

section \<open>JavaScript values\<close>

text \<open>
  The values that \<^verbatim>\<open>JSON.parse\<close> can produce, together with \<^verbatim>\<open>undefined\<close>
  (the result of reading a property that an object does not have).  Numbers are
  rationals; \<^verbatim>\<open>NaN\<close> and the infinities are not JSON values.  An object is the list of
  its own properties.
\<close>

datatype jsval =
    JUndefined
  | JNull
  | JBool bool
  | JNum rat
  | JStr string
  | JArr "jsval list"
  | JObj "(string \<times> jsval) list"

text \<open>JavaScript's \<^verbatim>\<open>ToBoolean\<close>: arrays and objects are truthy even when empty.\<close>

fun truthy :: "jsval \<Rightarrow> bool" where
  "truthy JUndefined = False"
| "truthy JNull = False"
| "truthy (JBool b) = b"
| "truthy (JNum n) = (n \<noteq> 0)"
| "truthy (JStr s) = (s \<noteq> [])"
| "truthy (JArr _) = True"
| "truthy (JObj _) = True"

text \<open>\<^verbatim>\<open>a || b\<close> yields \<^verbatim>\<open>a\<close> itself when it is truthy and \<^verbatim>\<open>b\<close> otherwise.\<close>

definition js_or :: "jsval \<Rightarrow> jsval \<Rightarrow> jsval" where
  "js_or a b = (if truthy a then a else b)"

text \<open>
  \<^verbatim>\<open>v.name\<close> for a property name that no built-in prototype defines: an own property
  of an object, \<^verbatim>\<open>undefined\<close> on every other value that can be dereferenced.
  (Reading a property of \<^verbatim>\<open>null\<close> or \<^verbatim>\<open>undefined\<close> throws; every read below
  is guarded by a truthiness test of the value read from.)
\<close>

fun get_prop :: "jsval \<Rightarrow> string \<Rightarrow> jsval" where
  "get_prop (JObj kvs) name = (case map_of kvs name of None \<Rightarrow> JUndefined | Some v \<Rightarrow> v)"
| "get_prop _ name = JUndefined"


section \<open>ErrorBoundary.jsx\<close>

text \<open>
  The component instance: \<^verbatim>\<open>this.state\<close> is an object, here the map from its
  property names to their values, and the console collects what
  \<^verbatim>\<open>console.error\<close> is given.
\<close>

record error_boundary =
  eb_state :: "string \<rightharpoonup> jsval"
  eb_console :: "jsval list list"

text \<open>\<^verbatim>\<open>constructor(props)\<close>: \<^verbatim>\<open>this.state = { hasError: false, error: null, errorInfo: null }\<close>.\<close>

definition ErrorBoundary_constructor :: error_boundary where
  "ErrorBoundary_constructor =
     \<lparr> eb_state = [''hasError'' \<mapsto> JBool False, ''error'' \<mapsto> JNull, ''errorInfo'' \<mapsto> JNull],
       eb_console = [] \<rparr>"

text \<open>\<^verbatim>\<open>static getDerivedStateFromError(error) { return { hasError: true }; }\<close>\<close>

definition getDerivedStateFromError :: "jsval \<Rightarrow> (string \<rightharpoonup> jsval)" where
  "getDerivedStateFromError err = [''hasError'' \<mapsto> JBool True]"

text \<open>
  \<^verbatim>\<open>componentDidCatch(error, errorInfo)\<close> logs and then replaces the state object by a
  fresh one with the two properties \<^verbatim>\<open>error\<close> and \<^verbatim>\<open>errorInfo\<close> (a plain
  assignment to \<^verbatim>\<open>this.state\<close>, no merge with the previous state).
\<close>

definition componentDidCatch :: "error_boundary \<Rightarrow> jsval \<Rightarrow> jsval \<Rightarrow> error_boundary" where
  "componentDidCatch this err errorInfo =
     this\<lparr> eb_console := eb_console this @ [[JStr ''Error caught by boundary:'', err, errorInfo]],
           eb_state := [''error'' \<mapsto> err, ''errorInfo'' \<mapsto> errorInfo] \<rparr>"

text \<open>
  What \<^verbatim>\<open>render()\<close> chooses: the fallback page (with or without the expandable
  error details) or the children.  A property the state object lacks reads as
  \<^verbatim>\<open>undefined\<close>.
\<close>

datatype boundary_view = Fallback bool | Children

definition state_prop :: "(string \<rightharpoonup> jsval) \<Rightarrow> string \<Rightarrow> jsval" where
  "state_prop st name = (case st name of None \<Rightarrow> JUndefined | Some v \<Rightarrow> v)"

definition ErrorBoundary_render :: "error_boundary \<Rightarrow> boundary_view" where
  "ErrorBoundary_render this =
     (if truthy (state_prop (eb_state this) ''hasError'')
      then Fallback (truthy (state_prop (eb_state this) ''error''))
      else Children)"

text \<open>
  React's handling of an error thrown below the boundary: the partial state returned
  by \<^verbatim>\<open>getDerivedStateFromError\<close> is merged into the state, and afterwards
  \<^verbatim>\<open>componentDidCatch\<close> runs on the instance.
\<close>

definition catch_error :: "error_boundary \<Rightarrow> jsval \<Rightarrow> jsval \<Rightarrow> error_boundary" where
  "catch_error this err errorInfo =
     componentDidCatch (this\<lparr> eb_state := eb_state this ++ getDerivedStateFromError err \<rparr>)
       err errorInfo"



section \<open>CameraView.jsx: the state update on a received message\<close>

text \<open>
  The component's state, one field per \<^verbatim>\<open>useState\<close> of the source.
  \<^verbatim>\<open>lastUpdate\<close> is \<^verbatim>\<open>null\<close> or a time stamp in milliseconds.
\<close>

record camera_view =
  frames :: jsval
  vehicleCounts :: jsval
  peopleCounts :: jsval
  emergencyVehicles :: jsval
  timings :: jsval
  lightStatus :: jsval
  phase :: jsval
  phaseRemaining :: jsval
  laneRemaining :: jsval
  showAnalytics :: bool
  historicalData :: "jsval list"
  lastUpdate :: "nat option"

definition CameraView_initial :: camera_view where
  "CameraView_initial =
     \<lparr> frames = JArr [JStr '''', JStr '''', JStr '''', JStr ''''],
       vehicleCounts = JArr [JNum 0, JNum 0, JNum 0, JNum 0],
       peopleCounts = JArr [JNum 0, JNum 0, JNum 0, JNum 0],
       emergencyVehicles = JArr [JBool False, JBool False, JBool False, JBool False],
       timings = JArr [JNum 0, JNum 0, JNum 0, JNum 0],
       lightStatus = JArr [JStr ''red'', JStr ''red'', JStr ''red'', JStr ''red''],
       phase = JStr ''green'',
       phaseRemaining = JNum 0,
       laneRemaining = JArr [JNum 0, JNum 0, JNum 0, JNum 0],
       showAnalytics = False,
       historicalData = [],
       lastUpdate = None \<rparr>"

text \<open>\<^verbatim>\<open>xs.slice(-n)\<close>: the last \<open>n\<close> elements, all of them when there are fewer.\<close>

definition slice_last :: "nat \<Rightarrow> 'a list \<Rightarrow> 'a list" where
  "slice_last n xs = drop (length xs - n) xs"

text \<open>
  The effect that runs when \<^verbatim>\<open>data\<close> changes (\<^verbatim>\<open>useEffect(..., [data])\<close>), at time
  \<open>now\<close> (\<^verbatim>\<open>new Date()\<close>).  Nothing happens while \<^verbatim>\<open>data\<close> is falsy; otherwise each
  of the nine setters gets \<^verbatim>\<open>data.field || default\<close>, and the message is appended to
  the history, which keeps its last 100 entries.
\<close>

definition on_data :: "nat \<Rightarrow> jsval \<Rightarrow> camera_view \<Rightarrow> camera_view" where
  "on_data now d st =
     (if truthy d then
        st\<lparr> frames := js_or (get_prop d ''frames'') (JArr [JStr '''', JStr '''', JStr '''', JStr '''']),
            vehicleCounts := js_or (get_prop d ''vehicle_counts'') (JArr [JNum 0, JNum 0, JNum 0, JNum 0]),
            peopleCounts := js_or (get_prop d ''people_counts'') (JArr [JNum 0, JNum 0, JNum 0, JNum 0]),
            emergencyVehicles := js_or (get_prop d ''emergency_vehicles'')
                                   (JArr [JBool False, JBool False, JBool False, JBool False]),
            timings := js_or (get_prop d ''timings'') (JArr [JNum 0, JNum 0, JNum 0, JNum 0]),
            lightStatus := js_or (get_prop d ''light_status'')
                             (JArr [JStr ''red'', JStr ''red'', JStr ''red'', JStr ''red'']),
            phase := js_or (get_prop d ''phase'') (JStr ''green''),
            phaseRemaining := js_or (get_prop d ''phase_remaining'') (JNum 0),
            laneRemaining := js_or (get_prop d ''lane_remaining'') (JArr [JNum 0, JNum 0, JNum 0, JNum 0]),
            lastUpdate := Some now,
            historicalData := slice_last 100 (historicalData st @ [d]) \<rparr>
      else st)"


section \<open>useWebSocket.js: the connection hook\<close>

text \<open>
  The hook's state variables and refs, and the part of the browser they act on: the
  \<^verbatim>\<open>readyState\<close> of every WebSocket created so far (a socket is named by its
  position in \<open>sockets\<close>) and the pending timeouts with their delays in milliseconds.
  \<^verbatim>\<open>error\<close> is \<^verbatim>\<open>null\<close> (\<open>None\<close>) or a message.
\<close>

datatype ready_state = CONNECTING | OPEN | CLOSING | CLOSED

record web_socket_hook =
  isConnected :: bool
  connectionStatus :: string
  data :: jsval
  error :: "string option"
  wsRef :: "nat option"
  reconnectTimeoutRef :: "nat option"
  reconnectAttemptsRef :: nat
  sockets :: "ready_state list"
  timeouts :: "(nat \<times> nat) list"
  timeouts_created :: nat

definition maxReconnectAttempts :: nat where
  "maxReconnectAttempts = 10"

definition reconnectDelay :: nat where
  "reconnectDelay = 3000"

definition useWebSocket_initial :: web_socket_hook where
  "useWebSocket_initial =
     \<lparr> isConnected = False, connectionStatus = ''disconnected'', data = JNull, error = None,
       wsRef = None, reconnectTimeoutRef = None, reconnectAttemptsRef = 0,
       sockets = [], timeouts = [], timeouts_created = 0 \<rparr>"

text \<open>
  \<^verbatim>\<open>setTimeout(callback, delay)\<close>: a new pending timeout; its handle, a positive
  number, is returned.  \<^verbatim>\<open>clearTimeout(handle)\<close> removes the pending timeout with
  that handle, if there is one.
\<close>

definition setTimeout :: "nat \<Rightarrow> web_socket_hook \<Rightarrow> nat \<times> web_socket_hook" where
  "setTimeout delay st =
     (Suc (timeouts_created st),
      st\<lparr> timeouts := timeouts st @ [(Suc (timeouts_created st), delay)],
          timeouts_created := Suc (timeouts_created st) \<rparr>)"

definition clearTimeout :: "nat \<Rightarrow> web_socket_hook \<Rightarrow> web_socket_hook" where
  "clearTimeout handle st = st\<lparr> timeouts := filter (\<lambda>(h, d). h \<noteq> handle) (timeouts st) \<rparr>"

text \<open>\<^verbatim>\<open>ws.onopen\<close>\<close>

definition onopen :: "web_socket_hook \<Rightarrow> web_socket_hook" where
  "onopen st =
     st\<lparr> isConnected := True, connectionStatus := ''connected'', error := None,
         reconnectAttemptsRef := 0 \<rparr>"

text \<open>
  \<^verbatim>\<open>ws.onmessage\<close>: the argument is the result of \<^verbatim>\<open>JSON.parse(event.data)\<close>,
  \<open>None\<close> when it throws (the handler catches and logs).
\<close>

definition onmessage :: "jsval option \<Rightarrow> web_socket_hook \<Rightarrow> web_socket_hook" where
  "onmessage parsed st = (case parsed of Some parsedData \<Rightarrow> st\<lparr> data := parsedData \<rparr> | None \<Rightarrow> st)"

text \<open>\<^verbatim>\<open>ws.onerror\<close>\<close>

definition onerror :: "web_socket_hook \<Rightarrow> web_socket_hook" where
  "onerror st = st\<lparr> error := Some ''Connection error'', connectionStatus := ''error'' \<rparr>"

text \<open>
  \<^verbatim>\<open>ws.onclose\<close>: below the maximum the counter is incremented and one timeout that
  calls \<^verbatim>\<open>connect\<close> is set; at the maximum the hook gives up.
\<close>

definition onclose :: "web_socket_hook \<Rightarrow> web_socket_hook" where
  "onclose st =
     (let st1 = st\<lparr> isConnected := False, connectionStatus := ''disconnected'', wsRef := None \<rparr>
      in if reconnectAttemptsRef st1 < maxReconnectAttempts then
           (let st2 = st1\<lparr> reconnectAttemptsRef := reconnectAttemptsRef st1 + 1,
                          connectionStatus := ''reconnecting'' \<rparr>;
                (handle, st3) = setTimeout reconnectDelay st2
            in st3\<lparr> reconnectTimeoutRef := Some handle \<rparr>)
         else st1\<lparr> error := Some ''Failed to connect after multiple attempts'',
                   connectionStatus := ''failed'' \<rparr>)"

text \<open>
  \<^verbatim>\<open>new WebSocket(url)\<close> either yields a socket or throws with a message.
\<close>

datatype constructed = Created | Throws string

text \<open>
  \<^verbatim>\<open>connect\<close>: nothing when the current socket is open; otherwise a new socket with the
  four handlers becomes the current one, or the constructor's exception is recorded.
\<close>

definition connect :: "constructed \<Rightarrow> web_socket_hook \<Rightarrow> web_socket_hook" where
  "connect ctor st =
     (if (case wsRef st of None \<Rightarrow> False | Some i \<Rightarrow> i < length (sockets st) \<and> sockets st ! i = OPEN)
      then st
      else (let st1 = st\<lparr> connectionStatus := ''connecting'' \<rparr>
            in case ctor of
                 Created \<Rightarrow> st1\<lparr> sockets := sockets st1 @ [CONNECTING],
                                 wsRef := Some (length (sockets st1)) \<rparr>
               | Throws message \<Rightarrow> st1\<lparr> error := Some message, connectionStatus := ''error'' \<rparr>))"

text \<open>\<^verbatim>\<open>ws.close()\<close> on socket \<open>i\<close>: a socket that is not yet closed starts closing.\<close>

definition close_socket :: "nat \<Rightarrow> web_socket_hook \<Rightarrow> web_socket_hook" where
  "close_socket i st =
     (if i < length (sockets st) \<and> sockets st ! i \<noteq> CLOSED
      then st\<lparr> sockets := (sockets st)[i := CLOSING] \<rparr> else st)"

definition disconnect :: "web_socket_hook \<Rightarrow> web_socket_hook" where
  "disconnect st =
     (let st1 = (case reconnectTimeoutRef st of None \<Rightarrow> st | Some handle \<Rightarrow> clearTimeout handle st);
          st2 = (case wsRef st1 of None \<Rightarrow> st1 | Some i \<Rightarrow> (close_socket i st1)\<lparr> wsRef := None \<rparr>)
      in st2\<lparr> isConnected := False, connectionStatus := ''disconnected'' \<rparr>)"

text \<open>
  What can happen to a mounted hook: a socket opens, delivers a message, reports an
  error or closes; a pending timeout fires (and calls \<^verbatim>\<open>connect\<close>); the user
  presses Retry (\<^verbatim>\<open>reconnect\<close> is \<^verbatim>\<open>connect\<close>); the component unmounts.  An event
  for a socket that was never created, or a timeout that is not pending, changes
  nothing.  The browser is not assumed to order the events of a socket in any way.
\<close>

datatype event =
    SocketOpen nat
  | SocketMessage nat "jsval option"
  | SocketError nat
  | SocketClose nat
  | TimeoutFires nat constructed
  | Reconnect constructed
  | Unmount

fun step :: "event \<Rightarrow> web_socket_hook \<Rightarrow> web_socket_hook" where
  "step (SocketOpen i) st =
     (if i < length (sockets st) then onopen (st\<lparr> sockets := (sockets st)[i := OPEN] \<rparr>) else st)"
| "step (SocketMessage i parsed) st =
     (if i < length (sockets st) then onmessage parsed st else st)"
| "step (SocketError i) st =
     (if i < length (sockets st) then onerror st else st)"
| "step (SocketClose i) st =
     (if i < length (sockets st) then onclose (st\<lparr> sockets := (sockets st)[i := CLOSED] \<rparr>) else st)"
| "step (TimeoutFires handle ctor) st =
     (if handle \<in> fst ` set (timeouts st) then connect ctor (clearTimeout handle st) else st)"
| "step (Reconnect ctor) st = connect ctor st"
| "step Unmount st = disconnect st"

text \<open>The hook after mounting (\<^verbatim>\<open>useEffect\<close> calls \<^verbatim>\<open>connect\<close>) and a list of events.\<close>

definition mount :: "constructed \<Rightarrow> web_socket_hook" where
  "mount ctor = connect ctor useWebSocket_initial"

definition run :: "event list \<Rightarrow> web_socket_hook \<Rightarrow> web_socket_hook" where
  "run evs st = fold step evs st"


text \<open>
  A run in which every connection attempt fails: the socket closes, the timeout fires
  and creates the next socket, ten times over.
\<close>

definition ten_closes :: "event list" where
  "ten_closes =
     [SocketClose 0, TimeoutFires 1 Created, SocketClose 1, TimeoutFires 2 Created,
      SocketClose 2, TimeoutFires 3 Created, SocketClose 3, TimeoutFires 4 Created,
      SocketClose 4, TimeoutFires 5 Created, SocketClose 5, TimeoutFires 6 Created,
      SocketClose 6, TimeoutFires 7 Created, SocketClose 7, TimeoutFires 8 Created,
      SocketClose 8, TimeoutFires 9 Created, SocketClose 9, TimeoutFires 10 Created]"


section \<open>Analytics.jsx: the charts and the fetched statistics\<close>

text \<open>
  The component is a function of its property \<^verbatim>\<open>historicalData\<close> and its state
  variable \<^verbatim>\<open>stats\<close>; it returns the element to render or throws.  A \<^verbatim>\<open>TypeError\<close>
  is what JavaScript throws when a property of \<^verbatim>\<open>undefined\<close> or \<^verbatim>\<open>null\<close> is
  read.  Where JavaScript would convert a string, an array or an object to a number
  or to a primitive (string parsing, \<^verbatim>\<open>ToPrimitive\<close>), or would produce an infinity,
  the evaluation stops with \<open>OutsideModel\<close>: these conversions are not modelled, and
  no result is asserted for such inputs.
\<close>

datatype js_error = TypeError | OutsideModel

text \<open>The value of an arithmetic expression: a finite number or \<^verbatim>\<open>NaN\<close>.\<close>

datatype js_number = Num rat | NaN

text \<open>Sequencing: the first exception ends the evaluation.\<close>

definition and_then :: "js_error + 'a \<Rightarrow> ('a \<Rightarrow> js_error + 'b) \<Rightarrow> js_error + 'b" where
  "and_then r f = (case r of Inl e \<Rightarrow> Inl e | Inr a \<Rightarrow> f a)"

fun map_result :: "('a \<Rightarrow> js_error + 'b) \<Rightarrow> 'a list \<Rightarrow> js_error + 'b list" where
  "map_result f [] = Inr []"
| "map_result f (x # xs) = and_then (f x) (\<lambda>y. and_then (map_result f xs) (\<lambda>ys. Inr (y # ys)))"

text \<open>\<^verbatim>\<open>v.name\<close>, with the exception for \<^verbatim>\<open>undefined\<close> and \<^verbatim>\<open>null\<close>.\<close>

fun member :: "jsval \<Rightarrow> string \<Rightarrow> js_error + jsval" where
  "member JUndefined name = Inl TypeError"
| "member JNull name = Inl TypeError"
| "member v name = Inr (get_prop v name)"

text \<open>
  \<^verbatim>\<open>v[i]\<close> for a literal index \<open>i\<close>: an element of an array, \<^verbatim>\<open>undefined\<close> beyond its
  end and on numbers and booleans; strings and objects are outside the model.
\<close>

fun js_index :: "jsval \<Rightarrow> nat \<Rightarrow> js_error + jsval" where
  "js_index JUndefined i = Inl TypeError"
| "js_index JNull i = Inl TypeError"
| "js_index (JArr xs) i = Inr (if i < length xs then xs ! i else JUndefined)"
| "js_index (JBool b) i = Inr JUndefined"
| "js_index (JNum n) i = Inr JUndefined"
| "js_index (JStr s) i = Inl OutsideModel"
| "js_index (JObj kvs) i = Inl OutsideModel"

text \<open>\<^verbatim>\<open>ToNumber\<close> on the values whose conversion needs no parsing.\<close>

fun to_number :: "jsval \<Rightarrow> js_error + js_number" where
  "to_number JUndefined = Inr NaN"
| "to_number JNull = Inr (Num 0)"
| "to_number (JBool b) = Inr (Num (if b then 1 else 0))"
| "to_number (JNum n) = Inr (Num n)"
| "to_number (JStr s) = Inl OutsideModel"
| "to_number (JArr xs) = Inl OutsideModel"
| "to_number (JObj kvs) = Inl OutsideModel"

fun number_plus :: "js_number \<Rightarrow> js_number \<Rightarrow> js_number" where
  "number_plus (Num a) (Num b) = Num (a + b)"
| "number_plus _ _ = NaN"

fun number_times :: "js_number \<Rightarrow> js_number \<Rightarrow> js_number" where
  "number_times (Num a) (Num b) = Num (a * b)"
| "number_times _ _ = NaN"

text \<open>Division; a zero divisor gives an infinity or \<^verbatim>\<open>NaN\<close> and is outside the model.\<close>

fun number_divide :: "js_number \<Rightarrow> js_number \<Rightarrow> js_error + js_number" where
  "number_divide (Num a) (Num b) = (if b = 0 then Inl OutsideModel else Inr (Num (a / b)))"
| "number_divide _ _ = Inr NaN"

text \<open>\<^verbatim>\<open>a + b\<close> where neither operand is a string, an array or an object: addition of numbers.\<close>

definition js_plus :: "jsval \<Rightarrow> jsval \<Rightarrow> js_error + js_number" where
  "js_plus a b = and_then (to_number a) (\<lambda>x. and_then (to_number b) (\<lambda>y. Inr (number_plus x y)))"

text \<open>\<^verbatim>\<open>v > 0\<close>: false for \<^verbatim>\<open>NaN\<close>.\<close>

definition js_positive :: "jsval \<Rightarrow> js_error + bool" where
  "js_positive v = and_then (to_number v) (\<lambda>x. Inr (case x of Num n \<Rightarrow> 0 < n | NaN \<Rightarrow> False))"

fun Math_floor :: "js_number \<Rightarrow> js_number" where
  "Math_floor (Num n) = Num (of_int \<lfloor>n\<rfloor>)"
| "Math_floor NaN = NaN"

text \<open>
  What the component puts between braces.  The digits that the runtime produces for a
  number are not computed: \<open>LocaleString x\<close> is the string \<^verbatim>\<open>x.toLocaleString()\<close>
  of the number \<open>x\<close>, and \<open>Fixed n d\<close> the string \<^verbatim>\<open>n.toFixed(d)\<close> of the
  finite number \<open>n\<close>.  \<open>Child v\<close> is a value handed to React as it is,
  \<open>ChildNaN\<close> the number \<^verbatim>\<open>NaN\<close>.  Numbers are rationals: the rounding of the
  arithmetic on doubles is not modelled.
\<close>

datatype rendered =
    Child jsval
  | ChildNaN
  | LocaleString js_number
  | Fixed rat nat
  | Text string

text \<open>
  \<^verbatim>\<open>v.toLocaleString()\<close>: the call throws on \<^verbatim>\<open>undefined\<close> and \<^verbatim>\<open>null\<close>; a string
  yields itself and a boolean its name.
\<close>

fun toLocaleString :: "jsval \<Rightarrow> js_error + rendered" where
  "toLocaleString JUndefined = Inl TypeError"
| "toLocaleString JNull = Inl TypeError"
| "toLocaleString (JNum n) = Inr (LocaleString (Num n))"
| "toLocaleString (JStr s) = Inr (Text s)"
| "toLocaleString (JBool b) = Inr (Text (if b then ''true'' else ''false''))"
| "toLocaleString (JArr xs) = Inl OutsideModel"
| "toLocaleString (JObj kvs) = Inl OutsideModel"

fun toFixed :: "js_number \<Rightarrow> nat \<Rightarrow> rendered" where
  "toFixed (Num n) digits = Fixed n digits"
| "toFixed NaN digits = Text ''NaN''"

fun number_child :: "js_number \<Rightarrow> rendered" where
  "number_child (Num n) = Child (JNum n)"
| "number_child NaN = ChildNaN"

subsection \<open>The chart data, computed before the element is built\<close>

text \<open>\<^verbatim>\<open>entry.field[k] || 0\<close>\<close>

definition lane_count :: "string \<Rightarrow> nat \<Rightarrow> jsval \<Rightarrow> js_error + jsval" where
  "lane_count field k entry =
     and_then (member entry field) (\<lambda>counts.
     and_then (js_index counts k) (\<lambda>c. Inr (js_or c (JNum 0))))"

record trend_point =
  time :: nat
  lane1 :: jsval
  lane2 :: jsval
  lane3 :: jsval
  lane4 :: jsval

text \<open>
  \<^verbatim>\<open>historicalData.slice(-20).map((entry, idx) => ({ time: idx, lane1: ..., lane4: ... }))\<close>
\<close>

definition trend_point_of :: "nat \<times> jsval \<Rightarrow> js_error + trend_point" where
  "trend_point_of p =
     (case p of (idx, entry) \<Rightarrow>
        and_then (lane_count ''vehicle_counts'' 0 entry) (\<lambda>c1.
        and_then (lane_count ''vehicle_counts'' 1 entry) (\<lambda>c2.
        and_then (lane_count ''vehicle_counts'' 2 entry) (\<lambda>c3.
        and_then (lane_count ''vehicle_counts'' 3 entry) (\<lambda>c4.
          Inr \<lparr> time = idx, lane1 = c1, lane2 = c2, lane3 = c3, lane4 = c4 \<rparr>)))))"

definition trafficTrendData :: "jsval list \<Rightarrow> js_error + trend_point list" where
  "trafficTrendData history =
     map_result trend_point_of (enumerate 0 (slice_last 20 history))"

text \<open>
  \<^verbatim>\<open>historicalData.reduce((sum, e) => sum + (e.field[k] || 0), 0)\<close>: the sum stays a
  number as long as every count is a number or a boolean.
\<close>

fun reduce_counts :: "string \<Rightarrow> nat \<Rightarrow> jsval list \<Rightarrow> js_number \<Rightarrow> js_error + js_number" where
  "reduce_counts field k [] acc = Inr acc"
| "reduce_counts field k (e # es) acc =
     and_then (lane_count field k e) (\<lambda>c.
     and_then (to_number c) (\<lambda>x. reduce_counts field k es (number_plus acc x)))"

definition totals_by_lane :: "string \<Rightarrow> jsval list \<Rightarrow> js_error + (string \<times> js_number) list" where
  "totals_by_lane field history =
     map_result (\<lambda>(name, k). and_then (reduce_counts field k history (Num 0))
                               (\<lambda>total. Inr (name, total)))
       [(''Lane 1'', 0), (''Lane 2'', 1), (''Lane 3'', 2), (''Lane 4'', 3)]"

record chart_data =
  trend :: "trend_point list"
  totalVehiclesByLane :: "(string \<times> js_number) list"
  totalPeopleByLane :: "(string \<times> js_number) list"

definition compute_chart_data :: "jsval list \<Rightarrow> js_error + chart_data" where
  "compute_chart_data history =
     and_then (trafficTrendData history) (\<lambda>t.
     and_then (totals_by_lane ''vehicle_counts'' history) (\<lambda>v.
     and_then (totals_by_lane ''people_counts'' history) (\<lambda>p.
       Inr \<lparr> trend = t, totalVehiclesByLane = v, totalPeopleByLane = p \<rparr>)))"

subsection \<open>The statistics\<close>

text \<open>
  The state variable \<^verbatim>\<open>stats\<close> starts as \<^verbatim>\<open>null\<close>; the effect stores the parsed
  body of \<^verbatim>\<open>GET /stats\<close>, and a failed request only logs.
\<close>

datatype fetched = Response jsval | Rejected

definition Analytics_initial_stats :: jsval where
  "Analytics_initial_stats = JNull"

definition on_stats_fetched :: "fetched \<Rightarrow> jsval \<Rightarrow> jsval" where
  "on_stats_fetched r stats = (case r of Response d \<Rightarrow> d | Rejected \<Rightarrow> stats)"

text \<open>A rendered line: its caption, the value shown and the text after it.\<close>

record stat_line =
  caption :: string
  shown :: rendered
  suffix :: string

text \<open>\<^verbatim>\<open>stats && (...)\<close>: the falsy value itself, or the block.\<close>

datatype 'a guarded = Skipped jsval | Shown 'a

text \<open>The four tiles of the first block, evaluated in the order of the source.\<close>

definition system_statistics :: "jsval \<Rightarrow> js_error + stat_line list guarded" where
  "system_statistics stats =
     (if truthy stats then
        and_then (toLocaleString (get_prop stats ''total_frames_processed'')) (\<lambda>frames_text.
        and_then (toLocaleString (get_prop stats ''total_vehicles_detected'')) (\<lambda>vehicles_text.
        and_then (toLocaleString (get_prop stats ''total_people_detected'')) (\<lambda>people_text.
          Inr (Shown
            [\<lparr> caption = ''Total Frames'', shown = frames_text, suffix = '''' \<rparr>,
             \<lparr> caption = ''Total Vehicles'', shown = vehicles_text, suffix = '''' \<rparr>,
             \<lparr> caption = ''Total People'', shown = people_text, suffix = '''' \<rparr>,
             \<lparr> caption = ''Emergency Vehicles'',
               shown = Child (get_prop stats ''emergency_vehicles_detected''), suffix = '''' \<rparr>]))))
      else Inr (Skipped stats))"

text \<open>
  \<^verbatim>\<open>stats.total_people_detected > 0 ? (stats.total_vehicles_detected / stats.total_people_detected).toFixed(2) : "N/A"\<close>
\<close>

definition vehicle_person_ratio :: "jsval \<Rightarrow> js_error + rendered" where
  "vehicle_person_ratio stats =
     and_then (js_positive (get_prop stats ''total_people_detected'')) (\<lambda>positive.
       if positive then
         and_then (to_number (get_prop stats ''total_vehicles_detected'')) (\<lambda>v.
         and_then (to_number (get_prop stats ''total_people_detected'')) (\<lambda>p.
         and_then (number_divide v p) (\<lambda>q. Inr (toFixed q 2))))
       else Inr (Text ''N/A''))"

text \<open>
  The second block: the three lines of "System Performance" and the three lines of
  "Detection Summary", evaluated in the order of the source.
\<close>

definition performance_metrics :: "jsval \<Rightarrow> js_error + stat_line list guarded" where
  "performance_metrics stats =
     (if truthy stats then
        and_then (to_number (get_prop stats ''average_processing_time'')) (\<lambda>average.
        and_then (to_number (get_prop stats ''uptime_seconds'')) (\<lambda>uptime.
        and_then (number_divide uptime (Num 60)) (\<lambda>minutes.
        and_then (js_plus (get_prop stats ''total_vehicles_detected'')
                          (get_prop stats ''total_people_detected'')) (\<lambda>detections.
        and_then (vehicle_person_ratio stats) (\<lambda>ratio.
          Inr (Shown
            [\<lparr> caption = ''Avg Processing Time:'',
               shown = toFixed (number_times average (Num 1000)) 2, suffix = '' ms'' \<rparr>,
             \<lparr> caption = ''Uptime:'',
               shown = number_child (Math_floor minutes), suffix = '' minutes'' \<rparr>,
             \<lparr> caption = ''Active Connections:'',
               shown = Child (get_prop stats ''active_connections''), suffix = '''' \<rparr>,
             \<lparr> caption = ''Total Detections:'',
               shown = LocaleString detections, suffix = '''' \<rparr>,
             \<lparr> caption = ''Vehicle/Person Ratio:'', shown = ratio, suffix = '''' \<rparr>,
             \<lparr> caption = ''Emergency Alerts:'',
               shown = Child (get_prop stats ''emergency_vehicles_detected''), suffix = '''' \<rparr>]))))))
      else Inr (Skipped stats))"

text \<open>
  The element the component returns: the data of the three charts and the two blocks
  about \<^verbatim>\<open>stats\<close>.  The chart data is computed first; an exception anywhere leaves
  nothing rendered.
\<close>

record analytics_view =
  charts :: chart_data
  statistics :: "stat_line list guarded"
  metrics :: "stat_line list guarded"

definition Analytics :: "jsval list \<Rightarrow> jsval \<Rightarrow> js_error + analytics_view" where
  "Analytics history stats =
     and_then (compute_chart_data history) (\<lambda>c.
     and_then (system_statistics stats) (\<lambda>s.
     and_then (performance_metrics stats) (\<lambda>m.
       Inr \<lparr> charts = c, statistics = s, metrics = m \<rparr>)))"

text \<open>
  A stats body with the seven fields and one more, and a history of one message of the
  composed state.
\<close>

definition sample_stats :: "(string \<times> jsval) list" where
  "sample_stats =
     [(''total_frames_processed'', JNum 1200), (''total_vehicles_detected'', JNum 340),
      (''total_people_detected'', JNum 85), (''emergency_vehicles_detected'', JNum 2),
      (''average_processing_time'', JNum (3 / 50)), (''uptime_seconds'', JNum 605),
      (''active_connections'', JNum 3), (''version'', JStr ''2.0'')]"

definition sample_history :: "jsval list" where
  "sample_history =
     [JObj [(''vehicle_counts'', JArr [JNum 10, JNum 0, JNum 3, JNum 1]),
            (''people_counts'', JArr [JNum 2, JNum 0, JNum 0, JNum 4])]]"


section \<open>The engine described by the specification\<close>

text \<open>
  The detection and scheduling engine (the backend) is not among the source files.
  The definitions of this section are written from the
  specification's description of it.
\<close>

subsection \<open>Configuration and the Timing Calculator\<close>

text \<open>
  Modelled from the spec: the configuration snapshot returned by \<^verbatim>\<open>current_config()\<close>;
  the backend's configuration module is missing.  Durations are in seconds, as
  rationals.
\<close>

record config =
  confidence_threshold :: rat
  base_time :: rat
  vehicle_weight :: rat
  person_weight :: rat
  min_green :: rat
  max_green :: rat
  yellow_duration :: rat
  emergency_priority_time :: rat
  process_every_n_frames :: nat

text \<open>
  Modelled from the spec: the default constants of sections 4.2, 4.3 and 4.4
  (\<^verbatim>\<open>base_time=6\<close>, \<^verbatim>\<open>vehicle_weight=0.5\<close>, \<^verbatim>\<open>person_weight=1.0\<close>, \<^verbatim>\<open>min_green=5\<close>,
  \<^verbatim>\<open>max_green=45\<close>, \<^verbatim>\<open>emergency_priority_time=30\<close>, \<^verbatim>\<open>yellow_duration\<close> 2 s,
  \<^verbatim>\<open>confidence_threshold\<close> 0.4); the stride of 1 is the one of the README's
  \<^verbatim>\<open>.env\<close> listing.
\<close>

definition default_config :: config where
  "default_config =
     \<lparr> confidence_threshold = 4 / 10, base_time = 6, vehicle_weight = 1 / 2, person_weight = 1,
       min_green = 5, max_green = 45, yellow_duration = 2, emergency_priority_time = 30,
       process_every_n_frames = 1 \<rparr>"

text \<open>
  Modelled from the spec: the Detection Snapshot and the Lane Plan of section 3; the
  backend's data models are missing.  The counts are natural numbers (\<open>\<ge> 0\<close>).
\<close>

record detection_snapshot =
  lane_id :: nat
  vehicle_count :: nat
  people_count :: nat
  has_emergency_vehicle :: bool
  capture_timestamp :: rat

record lane_plan =
  plan_lane_id :: nat
  green_time_seconds :: rat
  is_emergency_override :: bool

text \<open>Modelled from the spec: \<^verbatim>\<open>clamp(x, lo, hi)\<close> of section 4.3; the backend's code is missing.\<close>

definition clamp :: "rat \<Rightarrow> rat \<Rightarrow> rat \<Rightarrow> rat" where
  "clamp x lo hi = (if x < lo then lo else if hi < x then hi else x)"

text \<open>
  Modelled from the spec: the Timing Calculator of section 4.3, whose code is
  missing:
  \<^verbatim>\<open>green_time = clamp(base_time + vehicles*vehicle_weight + people*person_weight, min_green, max_green)\<close>,
  and \<^verbatim>\<open>if has_emergency_vehicle: green_time = emergency_priority_time; is_emergency_override = true\<close>.
\<close>

definition timing_calculator :: "config \<Rightarrow> detection_snapshot \<Rightarrow> lane_plan" where
  "timing_calculator cfg snap =
     (let green_time = clamp (base_time cfg + of_nat (vehicle_count snap) * vehicle_weight cfg
                              + of_nat (people_count snap) * person_weight cfg)
                         (min_green cfg) (max_green cfg)
      in if has_emergency_vehicle snap
         then \<lparr> plan_lane_id = lane_id snap, green_time_seconds = emergency_priority_time cfg,
                is_emergency_override = True \<rparr>
         else \<lparr> plan_lane_id = lane_id snap, green_time_seconds = green_time,
                is_emergency_override = False \<rparr>)"


subsection \<open>Broadcaster\<close>

text \<open>
  Modelled from the spec: the Broadcaster of section 4.6 with the
  \<open>active_connections\<close> quantity of the Stats Registry; the backend's connection
  handling is missing.  An observer is named by a number; \<open>observers\<close> lists the
  registered ones in the order of registration, and \<open>delivered\<close> records which observer
  received which state.
\<close>

record 'state broadcaster =
  observers :: "nat list"
  active_connections :: int
  delivered :: "(nat \<times> 'state) list"

definition broadcaster_initial :: "'state broadcaster" where
  "broadcaster_initial = \<lparr> observers = [], active_connections = 0, delivered = [] \<rparr>"

text \<open>
  Modelled from the spec: \<^verbatim>\<open>register(observer)\<close> adds an observer when a client
  connects, and \<^verbatim>\<open>unregister(observer)\<close> removes it; the code is missing.
  \<open>active_connections\<close> follows the set of observers: one more for an observer that is
  added, one less for an observer that is removed.
\<close>

definition register :: "nat \<Rightarrow> 'state broadcaster \<Rightarrow> 'state broadcaster" where
  "register ob b =
     (if ob \<in> set (observers b) then b
      else b\<lparr> observers := observers b @ [ob], active_connections := active_connections b + 1 \<rparr>)"

definition unregister :: "nat \<Rightarrow> 'state broadcaster \<Rightarrow> 'state broadcaster" where
  "unregister ob b =
     (if ob \<in> set (observers b)
      then b\<lparr> observers := removeAll ob (observers b), active_connections := active_connections b - 1 \<rparr>
      else b)"

text \<open>
  Modelled from the spec: \<^verbatim>\<open>publish(state)\<close>, whose code is missing, attempts the
  delivery to every observer registered when it is called; a send that fails
  (\<open>send_fails ob\<close>, decided by the channel) unregisters that observer, and the loop
  goes on with the remaining observers.
\<close>

fun publish_to :: "(nat \<Rightarrow> bool) \<Rightarrow> 'state \<Rightarrow> nat list \<Rightarrow> 'state broadcaster \<Rightarrow> 'state broadcaster" where
  "publish_to send_fails state [] b = b"
| "publish_to send_fails state (ob # obs) b =
     publish_to send_fails state obs
       (if send_fails ob then unregister ob b
        else b\<lparr> delivered := delivered b @ [(ob, state)] \<rparr>)"

definition publish :: "(nat \<Rightarrow> bool) \<Rightarrow> 'state \<Rightarrow> 'state broadcaster \<Rightarrow> 'state broadcaster" where
  "publish send_fails state b = publish_to send_fails state (observers b) b"

text \<open>Five clients connect, one after the other, to a fresh broadcaster of strings.\<close>

definition five_observers :: "string broadcaster" where
  "five_observers = register 5 (register 4 (register 3 (register 2 (register 1 broadcaster_initial))))"


section \<open>ErrorBoundary: the state after an error is caught\<close>

lemma getDerivedStateFromError_dom:
  "dom (getDerivedStateFromError err) = {''hasError''}"
  by (simp add: getDerivedStateFromError_def)

lemma componentDidCatch_state:
  "eb_state (componentDidCatch this err errorInfo) = [''error'' \<mapsto> err, ''errorInfo'' \<mapsto> errorInfo]"
  by (simp add: componentDidCatch_def)

text \<open>
  Claim C10.  When ErrorBoundary catches an error, \<^verbatim>\<open>getDerivedStateFromError\<close>
  returns the object whose only property is \<^verbatim>\<open>hasError: true\<close>, and
  \<^verbatim>\<open>componentDidCatch(error, errorInfo)\<close> then assigns a new object to
  \<^verbatim>\<open>this.state\<close>: whatever the state was before, afterwards it has exactly the
  properties \<^verbatim>\<open>error\<close> and \<^verbatim>\<open>errorInfo\<close>, holding the two arguments, and no
  property \<^verbatim>\<open>hasError\<close>.  This also holds for the whole sequence React runs
  (merge of the derived state, then \<^verbatim>\<open>componentDidCatch\<close>).
\<close>

theorem componentDidCatch_replaces_state:
  "getDerivedStateFromError err ''hasError'' = Some (JBool True)
   \<and> dom (getDerivedStateFromError err) = {''hasError''}
   \<and> dom (eb_state (componentDidCatch this err errorInfo)) = {''error'', ''errorInfo''}
   \<and> eb_state (componentDidCatch this err errorInfo) ''error'' = Some err
   \<and> eb_state (componentDidCatch this err errorInfo) ''errorInfo'' = Some errorInfo
   \<and> eb_state (componentDidCatch this err errorInfo) ''hasError'' = None
   \<and> dom (eb_state (catch_error this err errorInfo)) = {''error'', ''errorInfo''}
   \<and> eb_state (catch_error this err errorInfo) ''hasError'' = None"
  by (auto simp add: getDerivedStateFromError_def componentDidCatch_def catch_error_def)


section \<open>CameraView: defaults for absent and falsy fields\<close>

lemma on_data_object:
  "frames (on_data now (JObj kvs) st) = js_or (get_prop (JObj kvs) ''frames'') (JArr [JStr '''', JStr '''', JStr '''', JStr ''''])"
  "vehicleCounts (on_data now (JObj kvs) st) = js_or (get_prop (JObj kvs) ''vehicle_counts'') (JArr [JNum 0, JNum 0, JNum 0, JNum 0])"
  "peopleCounts (on_data now (JObj kvs) st) = js_or (get_prop (JObj kvs) ''people_counts'') (JArr [JNum 0, JNum 0, JNum 0, JNum 0])"
  "emergencyVehicles (on_data now (JObj kvs) st) = js_or (get_prop (JObj kvs) ''emergency_vehicles'') (JArr [JBool False, JBool False, JBool False, JBool False])"
  "timings (on_data now (JObj kvs) st) = js_or (get_prop (JObj kvs) ''timings'') (JArr [JNum 0, JNum 0, JNum 0, JNum 0])"
  "lightStatus (on_data now (JObj kvs) st) = js_or (get_prop (JObj kvs) ''light_status'') (JArr [JStr ''red'', JStr ''red'', JStr ''red'', JStr ''red''])"
  "phase (on_data now (JObj kvs) st) = js_or (get_prop (JObj kvs) ''phase'') (JStr ''green'')"
  "phaseRemaining (on_data now (JObj kvs) st) = js_or (get_prop (JObj kvs) ''phase_remaining'') (JNum 0)"
  "laneRemaining (on_data now (JObj kvs) st) = js_or (get_prop (JObj kvs) ''lane_remaining'') (JArr [JNum 0, JNum 0, JNum 0, JNum 0])"
  by (simp_all add: on_data_def)

lemma historicalData_capped:
  "truthy d \<Longrightarrow> length (historicalData (on_data now d st)) \<le> 100"
  by (simp add: on_data_def slice_last_def)

text \<open>
  Claim C9.  For a received message whose parsed value is an object with the own
  properties \<open>kvs\<close>, and for each of the nine fields of the composed state (listed with
  the state variable that stores it and its fixed default): when the object omits the
  field or carries a falsy value for it, the state variable becomes the default; when
  the field is present and truthy, the state variable becomes exactly the received
  value.  The defaults are four empty strings for \<^verbatim>\<open>frames\<close>, \<^verbatim>\<open>[0,0,0,0]\<close> for
  \<^verbatim>\<open>vehicle_counts\<close>, \<^verbatim>\<open>people_counts\<close>, \<^verbatim>\<open>timings\<close> and \<^verbatim>\<open>lane_remaining\<close>, four
  \<^verbatim>\<open>false\<close> for \<^verbatim>\<open>emergency_vehicles\<close>, four \<^verbatim>\<open>"red"\<close> for \<^verbatim>\<open>light_status\<close>,
  \<^verbatim>\<open>"green"\<close> for \<^verbatim>\<open>phase\<close> and \<^verbatim>\<open>0\<close> for \<^verbatim>\<open>phase_remaining\<close>.
\<close>

theorem on_data_field_defaults:
  "\<forall>(name, stored, dflt) \<in> set
      [(''frames'', frames, JArr [JStr '''', JStr '''', JStr '''', JStr '''']),
       (''vehicle_counts'', vehicleCounts, JArr [JNum 0, JNum 0, JNum 0, JNum 0]),
       (''people_counts'', peopleCounts, JArr [JNum 0, JNum 0, JNum 0, JNum 0]),
       (''emergency_vehicles'', emergencyVehicles, JArr [JBool False, JBool False, JBool False, JBool False]),
       (''timings'', timings, JArr [JNum 0, JNum 0, JNum 0, JNum 0]),
       (''light_status'', lightStatus, JArr [JStr ''red'', JStr ''red'', JStr ''red'', JStr ''red'']),
       (''phase'', phase, JStr ''green''),
       (''phase_remaining'', phaseRemaining, JNum 0),
       (''lane_remaining'', laneRemaining, JArr [JNum 0, JNum 0, JNum 0, JNum 0])].
     (map_of kvs name = None \<longrightarrow> stored (on_data now (JObj kvs) st) = dflt)
     \<and> (\<forall>v. map_of kvs name = Some v \<and> \<not> truthy v \<longrightarrow> stored (on_data now (JObj kvs) st) = dflt)
     \<and> (\<forall>v. map_of kvs name = Some v \<and> truthy v \<longrightarrow> stored (on_data now (JObj kvs) st) = v)"
  unfolding list.set ball_simps prod.case
  by (intro conjI; simp add: on_data_object js_or_def)

text \<open>
  The theorem at a message that omits \<^verbatim>\<open>frames\<close>, carries \<^verbatim>\<open>null\<close> for
  \<^verbatim>\<open>phase\<close> and \<^verbatim>\<open>0\<close> for \<^verbatim>\<open>phase_remaining\<close>, and has a truthy \<^verbatim>\<open>timings\<close>.
\<close>

theorem on_data_field_defaults_witness:
  "frames (on_data 7 (JObj [(''phase'', JNull), (''phase_remaining'', JNum 0),
        (''timings'', JArr [JNum 13, JNum 5, JNum 30, JNum 6])]) CameraView_initial)
     = JArr [JStr '''', JStr '''', JStr '''', JStr '''']
   \<and> phase (on_data 7 (JObj [(''phase'', JNull), (''phase_remaining'', JNum 0),
        (''timings'', JArr [JNum 13, JNum 5, JNum 30, JNum 6])]) CameraView_initial)
     = JStr ''green''
   \<and> phaseRemaining (on_data 7 (JObj [(''phase'', JNull), (''phase_remaining'', JNum 0),
        (''timings'', JArr [JNum 13, JNum 5, JNum 30, JNum 6])]) CameraView_initial)
     = JNum 0
   \<and> timings (on_data 7 (JObj [(''phase'', JNull), (''phase_remaining'', JNum 0),
        (''timings'', JArr [JNum 13, JNum 5, JNum 30, JNum 6])]) CameraView_initial)
     = JArr [JNum 13, JNum 5, JNum 30, JNum 6]"
  using on_data_field_defaults [of "[(''phase'', JNull), (''phase_remaining'', JNum 0),
        (''timings'', JArr [JNum 13, JNum 5, JNum 30, JNum 6])]" 7 CameraView_initial]
  by simp


section \<open>useWebSocket: the reconnection counter\<close>


lemma onopen_attempts: "reconnectAttemptsRef (onopen st) = 0"
  by (simp add: onopen_def)

lemma onmessage_attempts: "reconnectAttemptsRef (onmessage p st) = reconnectAttemptsRef st"
  by (simp add: onmessage_def split: option.splits)

lemma onerror_attempts: "reconnectAttemptsRef (onerror st) = reconnectAttemptsRef st"
  by (simp add: onerror_def)

lemma connect_attempts: "reconnectAttemptsRef (connect ctor st) = reconnectAttemptsRef st"
  by (simp add: connect_def Let_def split: constructed.splits option.splits)

lemma clearTimeout_attempts: "reconnectAttemptsRef (clearTimeout h st) = reconnectAttemptsRef st"
  by (simp add: clearTimeout_def)

lemma disconnect_attempts: "reconnectAttemptsRef (disconnect st) = reconnectAttemptsRef st"
  by (simp add: disconnect_def Let_def clearTimeout_def close_socket_def split: option.splits)

lemma onclose_below:
  "reconnectAttemptsRef st < maxReconnectAttempts \<Longrightarrow>
   onclose st = st\<lparr> isConnected := False, connectionStatus := ''reconnecting'', wsRef := None,
                    reconnectAttemptsRef := reconnectAttemptsRef st + 1,
                    timeouts := timeouts st @ [(Suc (timeouts_created st), reconnectDelay)],
                    timeouts_created := Suc (timeouts_created st),
                    reconnectTimeoutRef := Some (Suc (timeouts_created st)) \<rparr>"
  by (simp add: onclose_def Let_def setTimeout_def)

lemma onclose_at_max:
  "\<not> reconnectAttemptsRef st < maxReconnectAttempts \<Longrightarrow>
   onclose st = st\<lparr> isConnected := False, connectionStatus := ''failed'', wsRef := None,
                    error := Some ''Failed to connect after multiple attempts'' \<rparr>"
  by (simp add: onclose_def Let_def)

lemma onclose_attempts_le:
  "reconnectAttemptsRef st \<le> maxReconnectAttempts \<Longrightarrow>
   reconnectAttemptsRef (onclose st) \<le> maxReconnectAttempts"
  by (cases "reconnectAttemptsRef st < maxReconnectAttempts") (simp_all add: onclose_below onclose_at_max)

lemma step_attempts_le:
  "reconnectAttemptsRef st \<le> maxReconnectAttempts \<Longrightarrow>
   reconnectAttemptsRef (step ev st) \<le> maxReconnectAttempts"
proof (cases ev)
  case (SocketClose i)
  assume "reconnectAttemptsRef st \<le> maxReconnectAttempts"
  then have "reconnectAttemptsRef (onclose (st\<lparr> sockets := (sockets st)[i := CLOSED] \<rparr>)) \<le> maxReconnectAttempts"
    by (intro onclose_attempts_le) simp
  with SocketClose \<open>reconnectAttemptsRef st \<le> maxReconnectAttempts\<close> show ?thesis by simp
qed (simp_all add: onopen_attempts onmessage_attempts onerror_attempts connect_attempts
       clearTimeout_attempts disconnect_attempts)

lemma run_attempts_le:
  "reconnectAttemptsRef st \<le> maxReconnectAttempts \<Longrightarrow>
   reconnectAttemptsRef (run evs st) \<le> maxReconnectAttempts"
  unfolding run_def
  by (induction evs arbitrary: st) (simp_all add: step_attempts_le)

lemma mount_attempts: "reconnectAttemptsRef (mount ctor) = 0"
  by (simp add: mount_def connect_attempts useWebSocket_initial_def)


text \<open>
  Claim C8.  In every run of the hook (mounting, then any sequence of socket events,
  fired timeouts, manual reconnects and unmounts) the reconnection counter never
  exceeds 10.  A close event that finds the counter below 10 increments it, sets the
  status to \<^verbatim>\<open>"reconnecting"\<close> and schedules exactly one timeout, with the fixed delay
  of 3000 ms; a close event that finds the counter at 10 sets the status to
  \<^verbatim>\<open>"failed"\<close>, schedules nothing and leaves the counter as it is.  Every open event
  resets the counter to 0.
\<close>

theorem reconnect_attempts_bounded:
  "reconnectAttemptsRef (run evs (mount ctor)) \<le> 10
   \<and> (reconnectAttemptsRef st < 10 \<longrightarrow>
        reconnectAttemptsRef (onclose st) = reconnectAttemptsRef st + 1
        \<and> connectionStatus (onclose st) = ''reconnecting''
        \<and> (\<exists>handle. timeouts (onclose st) = timeouts st @ [(handle, 3000)]
                    \<and> reconnectTimeoutRef (onclose st) = Some handle))
   \<and> (\<not> reconnectAttemptsRef st < 10 \<longrightarrow>
        connectionStatus (onclose st) = ''failed''
        \<and> timeouts (onclose st) = timeouts st
        \<and> reconnectAttemptsRef (onclose st) = reconnectAttemptsRef st)
   \<and> reconnectAttemptsRef (onopen st) = 0"
proof -
  have "reconnectAttemptsRef (mount ctor) \<le> maxReconnectAttempts"
    by (simp add: mount_attempts)
  then have bounded: "reconnectAttemptsRef (run evs (mount ctor)) \<le> 10"
    using run_attempts_le [of "mount ctor" evs] by (simp add: maxReconnectAttempts_def)
  have below: "reconnectAttemptsRef st < 10 \<longrightarrow>
        reconnectAttemptsRef (onclose st) = reconnectAttemptsRef st + 1
        \<and> connectionStatus (onclose st) = ''reconnecting''
        \<and> (\<exists>handle. timeouts (onclose st) = timeouts st @ [(handle, 3000)]
                    \<and> reconnectTimeoutRef (onclose st) = Some handle)"
    by (simp add: onclose_below maxReconnectAttempts_def reconnectDelay_def)
  have at_max: "\<not> reconnectAttemptsRef st < 10 \<longrightarrow>
        connectionStatus (onclose st) = ''failed''
        \<and> timeouts (onclose st) = timeouts st
        \<and> reconnectAttemptsRef (onclose st) = reconnectAttemptsRef st"
    by (simp add: onclose_at_max maxReconnectAttempts_def)
  from bounded below at_max show ?thesis
    by (simp only: onopen_attempts simp_thms)
qed

lemma ten_closes_attempts: "reconnectAttemptsRef (run ten_closes (mount Created)) = 10"
  by (simp add: ten_closes_def run_def mount_def connect_def useWebSocket_initial_def clearTimeout_def
     onclose_def setTimeout_def Let_def maxReconnectAttempts_def reconnectDelay_def)

lemma ten_closes_timeouts: "timeouts (run ten_closes (mount Created)) = []"
  by (simp add: ten_closes_def run_def mount_def connect_def useWebSocket_initial_def clearTimeout_def
     onclose_def setTimeout_def Let_def maxReconnectAttempts_def reconnectDelay_def)

text \<open>
  The theorem on the first close after mounting (one timeout of 3000 ms, counter 1) and
  on the eleventh consecutive close (status \<^verbatim>\<open>"failed"\<close>, no timeout).
\<close>

theorem reconnect_attempts_bounded_witness:
  "reconnectAttemptsRef (run ten_closes (mount Created)) \<le> 10
   \<and> reconnectAttemptsRef (mount Created) < 10
   \<and> reconnectAttemptsRef (onclose (mount Created)) = 1
   \<and> connectionStatus (onclose (mount Created)) = ''reconnecting''
   \<and> timeouts (onclose (mount Created)) = [(1, 3000)]
   \<and> \<not> reconnectAttemptsRef (run ten_closes (mount Created)) < 10
   \<and> connectionStatus (onclose (run ten_closes (mount Created))) = ''failed''
   \<and> timeouts (onclose (run ten_closes (mount Created))) = []
   \<and> reconnectAttemptsRef (onopen (run ten_closes (mount Created))) = 0"
proof -
  have first: "reconnectAttemptsRef (mount Created) = 0" "timeouts (mount Created) = []"
    by (simp_all add: mount_def connect_def useWebSocket_initial_def)
  have one: "timeouts (onclose (mount Created)) = [(1, 3000)]"
    by (simp add: mount_def connect_def useWebSocket_initial_def onclose_def setTimeout_def
        Let_def maxReconnectAttempts_def reconnectDelay_def)
  show ?thesis
    using reconnect_attempts_bounded [of ten_closes Created "mount Created"]
      reconnect_attempts_bounded [of ten_closes Created "run ten_closes (mount Created)"]
      first one ten_closes_attempts ten_closes_timeouts
    by simp
qed


section \<open>Analytics: the fields of the statistics that are read and shown\<close>

lemma and_then_Inr [simp]: "and_then (Inr a) f = f a"
  by (simp add: and_then_def)

lemma and_then_Inl [simp]: "and_then (Inl e) f = Inl e"
  by (simp add: and_then_def)

lemma get_prop_object: "get_prop (JObj kvs) name = (case map_of kvs name of None \<Rightarrow> JUndefined | Some v \<Rightarrow> v)"
  by simp

lemma stats_blocks_agree:
  assumes "\<forall>name \<in> {''total_frames_processed'', ''total_vehicles_detected'', ''total_people_detected'',
        ''emergency_vehicles_detected'', ''average_processing_time'', ''uptime_seconds'',
        ''active_connections''}. map_of kvs1 name = map_of kvs2 name"
  shows "system_statistics (JObj kvs1) = system_statistics (JObj kvs2)"
    and "performance_metrics (JObj kvs1) = performance_metrics (JObj kvs2)"
  using assms by (simp_all add: system_statistics_def performance_metrics_def vehicle_person_ratio_def cong: if_cong)

lemma system_statistics_numbers:
  assumes "map_of kvs ''total_frames_processed'' = Some (JNum frames_n)"
    and "map_of kvs ''total_vehicles_detected'' = Some (JNum vehicles_n)"
    and "map_of kvs ''total_people_detected'' = Some (JNum people_n)"
    and "map_of kvs ''emergency_vehicles_detected'' = Some (JNum emergency_n)"
  shows "system_statistics (JObj kvs) = Inr (Shown
            [\<lparr> caption = ''Total Frames'', shown = LocaleString (Num frames_n), suffix = '''' \<rparr>,
             \<lparr> caption = ''Total Vehicles'', shown = LocaleString (Num vehicles_n), suffix = '''' \<rparr>,
             \<lparr> caption = ''Total People'', shown = LocaleString (Num people_n), suffix = '''' \<rparr>,
             \<lparr> caption = ''Emergency Vehicles'', shown = Child (JNum emergency_n), suffix = '''' \<rparr>])"
  using assms by (simp add: system_statistics_def)

lemma performance_metrics_numbers:
  assumes "map_of kvs ''total_vehicles_detected'' = Some (JNum vehicles_n)"
    and "map_of kvs ''total_people_detected'' = Some (JNum people_n)"
    and "map_of kvs ''emergency_vehicles_detected'' = Some (JNum emergency_n)"
    and "map_of kvs ''average_processing_time'' = Some (JNum average_n)"
    and "map_of kvs ''uptime_seconds'' = Some (JNum uptime_n)"
    and "map_of kvs ''active_connections'' = Some (JNum connections_n)"
  shows "performance_metrics (JObj kvs) = Inr (Shown
            [\<lparr> caption = ''Avg Processing Time:'', shown = Fixed (average_n * 1000) 2, suffix = '' ms'' \<rparr>,
             \<lparr> caption = ''Uptime:'', shown = Child (JNum (of_int \<lfloor>uptime_n / 60\<rfloor>)), suffix = '' minutes'' \<rparr>,
             \<lparr> caption = ''Active Connections:'', shown = Child (JNum connections_n), suffix = '''' \<rparr>,
             \<lparr> caption = ''Total Detections:'', shown = LocaleString (Num (vehicles_n + people_n)), suffix = '''' \<rparr>,
             \<lparr> caption = ''Vehicle/Person Ratio:'',
               shown = (if 0 < people_n then Fixed (vehicles_n / people_n) 2 else Text ''N/A''), suffix = '''' \<rparr>,
             \<lparr> caption = ''Emergency Alerts:'', shown = Child (JNum emergency_n), suffix = '''' \<rparr>])"
  using assms by (simp add: performance_metrics_def vehicle_person_ratio_def js_plus_def js_positive_def)

lemma Analytics_missing_field_throws:
  "map_of kvs ''total_frames_processed'' = None \<Longrightarrow>
   Analytics history (JObj kvs) = and_then (compute_chart_data history) (\<lambda>c. Inl TypeError)"
  by (simp add: Analytics_def system_statistics_def)

lemma Analytics_before_fetch:
  "Analytics history Analytics_initial_stats =
     and_then (compute_chart_data history)
       (\<lambda>c. Inr \<lparr> charts = c, statistics = Skipped JNull, metrics = Skipped JNull \<rparr>)"
  by (simp add: Analytics_def system_statistics_def performance_metrics_def Analytics_initial_stats_def)

lemma map_result_succeeds:
  "(\<And>x. x \<in> set xs \<Longrightarrow> \<exists>y. f x = Inr y) \<Longrightarrow> \<exists>ys. map_result f xs = Inr ys"
proof (induction xs)
  case Nil
  then show ?case by simp
next
  case (Cons x xs)
  then obtain y where y: "f x = Inr y" by (meson list.set_intros(1))
  from Cons obtain ys where "map_result f xs = Inr ys" by (meson list.set_intros(2))
  with y show ?case by simp
qed

lemma lane_count_of_numbers:
  assumes "get_prop entry field = JArr (map JNum ns)"
  shows "\<exists>n. lane_count field k entry = Inr (JNum n)"
proof -
  from assms have member: "member entry field = Inr (JArr (map JNum ns))"
    by (cases entry) simp_all
  show ?thesis
    by (cases "k < length ns") (simp_all add: lane_count_def member js_or_def)
qed

lemma reduce_counts_succeeds:
  "(\<And>e. e \<in> set es \<Longrightarrow> \<exists>n. lane_count field k e = Inr (JNum n)) \<Longrightarrow>
   \<exists>total. reduce_counts field k es (Num a) = Inr (Num total)"
proof (induction es arbitrary: a)
  case Nil
  then show ?case by simp
next
  case (Cons e es)
  then obtain n where n: "lane_count field k e = Inr (JNum n)" by (meson list.set_intros(1))
  from Cons obtain total where "reduce_counts field k es (Num (a + n)) = Inr (Num total)"
    by (meson list.set_intros(2))
  with n show ?case by simp
qed

lemma totals_by_lane_succeeds:
  assumes "\<And>e. e \<in> set history \<Longrightarrow> \<exists>ns. get_prop e field = JArr (map JNum ns)"
  shows "\<exists>totals. totals_by_lane field history = Inr totals"
proof -
  have "\<exists>total. reduce_counts field k history (Num 0) = Inr (Num total)" for k
    using assms lane_count_of_numbers by (intro reduce_counts_succeeds) blast
  then have "\<exists>y. and_then (reduce_counts field k history (Num 0)) (\<lambda>total. Inr (name, total)) = Inr y"
    for name :: string and k
    by (metis and_then_Inr)
  then show ?thesis
    unfolding totals_by_lane_def
    by (intro map_result_succeeds) (simp split: prod.splits)
qed

lemma trafficTrendData_succeeds:
  assumes "\<And>e. e \<in> set history \<Longrightarrow> \<exists>ns. get_prop e ''vehicle_counts'' = JArr (map JNum ns)"
  shows "\<exists>points. trafficTrendData history = Inr points"
proof -
  have "\<exists>point. trend_point_of (idx, e) = Inr point" if "e \<in> set history" for idx e
  proof -
    from assms that obtain ns where ns: "get_prop e ''vehicle_counts'' = JArr (map JNum ns)" by blast
    obtain c1 c2 c3 c4 where
      "lane_count ''vehicle_counts'' 0 e = Inr (JNum c1)" "lane_count ''vehicle_counts'' 1 e = Inr (JNum c2)"
      "lane_count ''vehicle_counts'' 2 e = Inr (JNum c3)" "lane_count ''vehicle_counts'' 3 e = Inr (JNum c4)"
      using lane_count_of_numbers [OF ns] by metis
    then show ?thesis by (simp add: trend_point_of_def)
  qed
  moreover have "snd p \<in> set history" if "p \<in> set (enumerate 0 (slice_last 20 history))" for p
  proof -
    from that have "snd p \<in> set (slice_last 20 history)"
      by (metis in_set_enumerate_eq diff_zero add.right_neutral nth_mem)
    then show ?thesis
      by (auto simp add: slice_last_def dest: in_set_dropD)
  qed
  ultimately show ?thesis
    unfolding trafficTrendData_def
    by (intro map_result_succeeds) (metis prod.collapse)
qed

lemma compute_chart_data_succeeds:
  assumes "\<And>e. e \<in> set history \<Longrightarrow>
      (\<exists>ns. get_prop e ''vehicle_counts'' = JArr (map JNum ns))
      \<and> (\<exists>ns. get_prop e ''people_counts'' = JArr (map JNum ns))"
  shows "\<exists>c. compute_chart_data history = Inr c"
proof -
  obtain t where "trafficTrendData history = Inr t"
    using trafficTrendData_succeeds [of history] assms by blast
  moreover obtain v where "totals_by_lane ''vehicle_counts'' history = Inr v"
    using totals_by_lane_succeeds [of history "''vehicle_counts''"] assms by blast
  moreover obtain p where "totals_by_lane ''people_counts'' history = Inr p"
    using totals_by_lane_succeeds [of history "''people_counts''"] assms by blast
  ultimately show ?thesis by (simp add: compute_chart_data_def)
qed

text \<open>
  Claim C7.  Whatever object the stats read returns, what the Analytics component
  renders depends on no property of it besides the seven of the wire contract: two
  objects that agree on these seven give the same result.  And for every returned
  object that carries the seven fields as numbers, each of them is rendered: once
  the chart data is computed, the element holds the four tiles and the six lines
  below, with the values of exactly these fields.
\<close>

theorem Analytics_renders_the_contract:
  "((\<forall>name \<in> {''total_frames_processed'', ''total_vehicles_detected'', ''total_people_detected'',
        ''emergency_vehicles_detected'', ''average_processing_time'', ''uptime_seconds'',
        ''active_connections''}. map_of kvs1 name = map_of kvs2 name) \<longrightarrow>
      Analytics history (on_stats_fetched (Response (JObj kvs1)) previous) =
      Analytics history (on_stats_fetched (Response (JObj kvs2)) previous))
   \<and> (map_of kvs ''total_frames_processed'' = Some (JNum frames_n)
      \<and> map_of kvs ''total_vehicles_detected'' = Some (JNum vehicles_n)
      \<and> map_of kvs ''total_people_detected'' = Some (JNum people_n)
      \<and> map_of kvs ''emergency_vehicles_detected'' = Some (JNum emergency_n)
      \<and> map_of kvs ''average_processing_time'' = Some (JNum average_n)
      \<and> map_of kvs ''uptime_seconds'' = Some (JNum uptime_n)
      \<and> map_of kvs ''active_connections'' = Some (JNum connections_n) \<longrightarrow>
      Analytics history (on_stats_fetched (Response (JObj kvs)) previous) =
        and_then (compute_chart_data history) (\<lambda>c. Inr
          \<lparr> charts = c,
            statistics = Shown
              [\<lparr> caption = ''Total Frames'', shown = LocaleString (Num frames_n), suffix = '''' \<rparr>,
               \<lparr> caption = ''Total Vehicles'', shown = LocaleString (Num vehicles_n), suffix = '''' \<rparr>,
               \<lparr> caption = ''Total People'', shown = LocaleString (Num people_n), suffix = '''' \<rparr>,
               \<lparr> caption = ''Emergency Vehicles'', shown = Child (JNum emergency_n), suffix = '''' \<rparr>],
            metrics = Shown
              [\<lparr> caption = ''Avg Processing Time:'', shown = Fixed (average_n * 1000) 2,
                 suffix = '' ms'' \<rparr>,
               \<lparr> caption = ''Uptime:'', shown = Child (JNum (of_int \<lfloor>uptime_n / 60\<rfloor>)),
                 suffix = '' minutes'' \<rparr>,
               \<lparr> caption = ''Active Connections:'', shown = Child (JNum connections_n), suffix = '''' \<rparr>,
               \<lparr> caption = ''Total Detections:'', shown = LocaleString (Num (vehicles_n + people_n)),
                 suffix = '''' \<rparr>,
               \<lparr> caption = ''Vehicle/Person Ratio:'',
                 shown = (if 0 < people_n then Fixed (vehicles_n / people_n) 2 else Text ''N/A''),
                 suffix = '''' \<rparr>,
               \<lparr> caption = ''Emergency Alerts:'', shown = Child (JNum emergency_n), suffix = '''' \<rparr>] \<rparr>))"
proof (intro conjI impI)
  assume "\<forall>name \<in> {''total_frames_processed'', ''total_vehicles_detected'', ''total_people_detected'',
        ''emergency_vehicles_detected'', ''average_processing_time'', ''uptime_seconds'',
        ''active_connections''}. map_of kvs1 name = map_of kvs2 name"
  then have "system_statistics (JObj kvs1) = system_statistics (JObj kvs2)"
    and "performance_metrics (JObj kvs1) = performance_metrics (JObj kvs2)"
    by (rule stats_blocks_agree)+
  then show "Analytics history (on_stats_fetched (Response (JObj kvs1)) previous) =
      Analytics history (on_stats_fetched (Response (JObj kvs2)) previous)"
    by (simp add: Analytics_def on_stats_fetched_def)
next
  assume fields: "map_of kvs ''total_frames_processed'' = Some (JNum frames_n)
      \<and> map_of kvs ''total_vehicles_detected'' = Some (JNum vehicles_n)
      \<and> map_of kvs ''total_people_detected'' = Some (JNum people_n)
      \<and> map_of kvs ''emergency_vehicles_detected'' = Some (JNum emergency_n)
      \<and> map_of kvs ''average_processing_time'' = Some (JNum average_n)
      \<and> map_of kvs ''uptime_seconds'' = Some (JNum uptime_n)
      \<and> map_of kvs ''active_connections'' = Some (JNum connections_n)"
  note tiles = system_statistics_numbers [of kvs frames_n vehicles_n people_n emergency_n]
  note lines = performance_metrics_numbers [of kvs vehicles_n people_n emergency_n average_n uptime_n connections_n]
  from fields tiles lines show "Analytics history (on_stats_fetched (Response (JObj kvs)) previous) =
        and_then (compute_chart_data history) (\<lambda>c. Inr
          \<lparr> charts = c,
            statistics = Shown
              [\<lparr> caption = ''Total Frames'', shown = LocaleString (Num frames_n), suffix = '''' \<rparr>,
               \<lparr> caption = ''Total Vehicles'', shown = LocaleString (Num vehicles_n), suffix = '''' \<rparr>,
               \<lparr> caption = ''Total People'', shown = LocaleString (Num people_n), suffix = '''' \<rparr>,
               \<lparr> caption = ''Emergency Vehicles'', shown = Child (JNum emergency_n), suffix = '''' \<rparr>],
            metrics = Shown
              [\<lparr> caption = ''Avg Processing Time:'', shown = Fixed (average_n * 1000) 2,
                 suffix = '' ms'' \<rparr>,
               \<lparr> caption = ''Uptime:'', shown = Child (JNum (of_int \<lfloor>uptime_n / 60\<rfloor>)),
                 suffix = '' minutes'' \<rparr>,
               \<lparr> caption = ''Active Connections:'', shown = Child (JNum connections_n), suffix = '''' \<rparr>,
               \<lparr> caption = ''Total Detections:'', shown = LocaleString (Num (vehicles_n + people_n)),
                 suffix = '''' \<rparr>,
               \<lparr> caption = ''Vehicle/Person Ratio:'',
                 shown = (if 0 < people_n then Fixed (vehicles_n / people_n) 2 else Text ''N/A''),
                 suffix = '''' \<rparr>,
               \<lparr> caption = ''Emergency Alerts:'', shown = Child (JNum emergency_n), suffix = '''' \<rparr>] \<rparr>)"
    by (simp add: Analytics_def on_stats_fetched_def)
qed

lemma sample_chart_data:
  "compute_chart_data sample_history = Inr
     \<lparr> trend = [\<lparr> time = 0, lane1 = JNum 10, lane2 = JNum 0, lane3 = JNum 3, lane4 = JNum 1 \<rparr>],
       totalVehiclesByLane = [(''Lane 1'', Num 10), (''Lane 2'', Num 0), (''Lane 3'', Num 3), (''Lane 4'', Num 1)],
       totalPeopleByLane = [(''Lane 1'', Num 2), (''Lane 2'', Num 0), (''Lane 3'', Num 0), (''Lane 4'', Num 4)] \<rparr>"
  by (simp add: compute_chart_data_def sample_history_def trafficTrendData_def totals_by_lane_def
      trend_point_of_def lane_count_def slice_last_def js_or_def enumerate_eq_zip)

text \<open>
  The theorem on a body with the seven fields and a field \<^verbatim>\<open>version\<close>, after one
  message in the history: the element holds the ten values, and the body without
  \<^verbatim>\<open>version\<close> gives the same element.
\<close>

theorem Analytics_renders_the_contract_witness:
  "Analytics sample_history (on_stats_fetched (Response (JObj sample_stats)) Analytics_initial_stats) = Inr
     \<lparr> charts =
         \<lparr> trend = [\<lparr> time = 0, lane1 = JNum 10, lane2 = JNum 0, lane3 = JNum 3, lane4 = JNum 1 \<rparr>],
           totalVehiclesByLane = [(''Lane 1'', Num 10), (''Lane 2'', Num 0), (''Lane 3'', Num 3), (''Lane 4'', Num 1)],
           totalPeopleByLane = [(''Lane 1'', Num 2), (''Lane 2'', Num 0), (''Lane 3'', Num 0), (''Lane 4'', Num 4)] \<rparr>,
       statistics = Shown
         [\<lparr> caption = ''Total Frames'', shown = LocaleString (Num 1200), suffix = '''' \<rparr>,
          \<lparr> caption = ''Total Vehicles'', shown = LocaleString (Num 340), suffix = '''' \<rparr>,
          \<lparr> caption = ''Total People'', shown = LocaleString (Num 85), suffix = '''' \<rparr>,
          \<lparr> caption = ''Emergency Vehicles'', shown = Child (JNum 2), suffix = '''' \<rparr>],
       metrics = Shown
         [\<lparr> caption = ''Avg Processing Time:'', shown = Fixed 60 2, suffix = '' ms'' \<rparr>,
          \<lparr> caption = ''Uptime:'', shown = Child (JNum 10), suffix = '' minutes'' \<rparr>,
          \<lparr> caption = ''Active Connections:'', shown = Child (JNum 3), suffix = '''' \<rparr>,
          \<lparr> caption = ''Total Detections:'', shown = LocaleString (Num 425), suffix = '''' \<rparr>,
          \<lparr> caption = ''Vehicle/Person Ratio:'', shown = Fixed 4 2, suffix = '''' \<rparr>,
          \<lparr> caption = ''Emergency Alerts:'', shown = Child (JNum 2), suffix = '''' \<rparr>] \<rparr>
   \<and> Analytics sample_history (on_stats_fetched (Response (JObj sample_stats)) Analytics_initial_stats) =
     Analytics sample_history (on_stats_fetched (Response (JObj (take 7 sample_stats))) Analytics_initial_stats)"
proof -
  note claim = Analytics_renders_the_contract [of sample_stats "take 7 sample_stats" sample_history
      Analytics_initial_stats sample_stats 1200 340 85 2 "3 / 50" 605 3]
  have floor: "\<lfloor>605 / 60 :: rat\<rfloor> = 10" by linarith
  have shown: "Analytics sample_history (on_stats_fetched (Response (JObj sample_stats)) Analytics_initial_stats) = Inr
     \<lparr> charts =
         \<lparr> trend = [\<lparr> time = 0, lane1 = JNum 10, lane2 = JNum 0, lane3 = JNum 3, lane4 = JNum 1 \<rparr>],
           totalVehiclesByLane = [(''Lane 1'', Num 10), (''Lane 2'', Num 0), (''Lane 3'', Num 3), (''Lane 4'', Num 1)],
           totalPeopleByLane = [(''Lane 1'', Num 2), (''Lane 2'', Num 0), (''Lane 3'', Num 0), (''Lane 4'', Num 4)] \<rparr>,
       statistics = Shown
         [\<lparr> caption = ''Total Frames'', shown = LocaleString (Num 1200), suffix = '''' \<rparr>,
          \<lparr> caption = ''Total Vehicles'', shown = LocaleString (Num 340), suffix = '''' \<rparr>,
          \<lparr> caption = ''Total People'', shown = LocaleString (Num 85), suffix = '''' \<rparr>,
          \<lparr> caption = ''Emergency Vehicles'', shown = Child (JNum 2), suffix = '''' \<rparr>],
       metrics = Shown
         [\<lparr> caption = ''Avg Processing Time:'', shown = Fixed 60 2, suffix = '' ms'' \<rparr>,
          \<lparr> caption = ''Uptime:'', shown = Child (JNum 10), suffix = '' minutes'' \<rparr>,
          \<lparr> caption = ''Active Connections:'', shown = Child (JNum 3), suffix = '''' \<rparr>,
          \<lparr> caption = ''Total Detections:'', shown = LocaleString (Num 425), suffix = '''' \<rparr>,
          \<lparr> caption = ''Vehicle/Person Ratio:'', shown = Fixed 4 2, suffix = '''' \<rparr>,
          \<lparr> caption = ''Emergency Alerts:'', shown = Child (JNum 2), suffix = '''' \<rparr>] \<rparr>"
    using claim [THEN conjunct2] sample_chart_data floor by (simp add: sample_stats_def)
  have same: "Analytics sample_history (on_stats_fetched (Response (JObj sample_stats)) Analytics_initial_stats) =
     Analytics sample_history (on_stats_fetched (Response (JObj (take 7 sample_stats))) Analytics_initial_stats)"
    using claim [THEN conjunct1] by (simp add: sample_stats_def)
  show ?thesis by (intro conjI shown same)
qed


section \<open>Timing Calculator\<close>

lemma clamp_bounds: "lo \<le> hi \<Longrightarrow> lo \<le> clamp x lo hi \<and> clamp x lo hi \<le> hi"
  by (simp add: clamp_def)

lemma clamp_inside: "lo \<le> x \<Longrightarrow> x \<le> hi \<Longrightarrow> clamp x lo hi = x"
  by (simp add: clamp_def)

text \<open>
  Claim C1.  For every Detection Snapshot without an emergency vehicle, with \<open>v\<close>
  vehicles and \<open>p\<close> people, the Timing Calculator under the default configuration
  returns the green time \<open>clamp (6 + 0.5 * v + 1.0 * p) 5 45\<close>, that is the sum when
  it is at most 45 and 45 otherwise (the sum is never below 5); no override is
  flagged.
\<close>

theorem timing_calculator_default:
  assumes "\<not> has_emergency_vehicle snap"
  shows "green_time_seconds (timing_calculator default_config snap) =
           clamp (6 + (1 / 2) * of_nat (vehicle_count snap) + 1 * of_nat (people_count snap)) 5 45
         \<and> green_time_seconds (timing_calculator default_config snap) =
           min 45 (6 + of_nat (vehicle_count snap) / 2 + of_nat (people_count snap))
         \<and> \<not> is_emergency_override (timing_calculator default_config snap)"
proof -
  let ?sum = "6 + (1 / 2) * of_nat (vehicle_count snap) + 1 * of_nat (people_count snap) :: rat"
  have green: "green_time_seconds (timing_calculator default_config snap) = clamp ?sum 5 45"
    using assms by (simp add: timing_calculator_def default_config_def mult.commute)
  have "5 \<le> ?sum" by simp
  then have "clamp ?sum 5 45 = min 45 ?sum"
    by (simp add: clamp_def min_def)
  with green assms show ?thesis
    by (simp add: timing_calculator_def)
qed

text \<open>The example of the specification: 10 vehicles and 2 people give 13 seconds.\<close>

theorem timing_calculator_default_witness:
  "\<not> has_emergency_vehicle \<lparr> lane_id = 0, vehicle_count = 10, people_count = 2,
        has_emergency_vehicle = False, capture_timestamp = 0 \<rparr>
   \<and> green_time_seconds (timing_calculator default_config
        \<lparr> lane_id = 0, vehicle_count = 10, people_count = 2,
          has_emergency_vehicle = False, capture_timestamp = 0 \<rparr>) = 13"
  using timing_calculator_default [of "\<lparr> lane_id = 0, vehicle_count = 10, people_count = 2,
        has_emergency_vehicle = False, capture_timestamp = 0 \<rparr>"]
  by simp

text \<open>
  Claim C2.  For every Detection Snapshot with an emergency vehicle, under every
  configuration, the Timing Calculator returns the configuration's
  \<open>emergency_priority_time\<close> (30 under the default configuration) and flags the
  override, whatever the counts and whatever the bounds \<open>min_green\<close> and
  \<open>max_green\<close> are.
\<close>

theorem timing_calculator_emergency:
  assumes "has_emergency_vehicle snap"
  shows "green_time_seconds (timing_calculator cfg snap) = emergency_priority_time cfg
         \<and> is_emergency_override (timing_calculator cfg snap)
         \<and> green_time_seconds (timing_calculator default_config snap) = 30"
  using assms by (simp add: timing_calculator_def default_config_def)

text \<open>
  The theorem on a lane with 100 vehicles and 100 people (the clamp alone would give
  45), and under a configuration whose priority time of 60 lies above \<open>max_green\<close>.
\<close>

theorem timing_calculator_emergency_witness:
  "has_emergency_vehicle \<lparr> lane_id = 1, vehicle_count = 100, people_count = 100,
        has_emergency_vehicle = True, capture_timestamp = 0 \<rparr>
   \<and> green_time_seconds (timing_calculator default_config
        \<lparr> lane_id = 1, vehicle_count = 100, people_count = 100,
          has_emergency_vehicle = True, capture_timestamp = 0 \<rparr>) = 30
   \<and> green_time_seconds (timing_calculator (default_config\<lparr> emergency_priority_time := 60 \<rparr>)
        \<lparr> lane_id = 1, vehicle_count = 100, people_count = 100,
          has_emergency_vehicle = True, capture_timestamp = 0 \<rparr>) = 60
   \<and> is_emergency_override (timing_calculator default_config
        \<lparr> lane_id = 1, vehicle_count = 100, people_count = 100,
          has_emergency_vehicle = True, capture_timestamp = 0 \<rparr>)"
  using timing_calculator_emergency [of "\<lparr> lane_id = 1, vehicle_count = 100, people_count = 100,
        has_emergency_vehicle = True, capture_timestamp = 0 \<rparr>" "default_config\<lparr> emergency_priority_time := 60 \<rparr>"]
    timing_calculator_emergency [of "\<lparr> lane_id = 1, vehicle_count = 100, people_count = 100,
        has_emergency_vehicle = True, capture_timestamp = 0 \<rparr>" default_config]
  by simp


section \<open>Broadcaster: pruning on a failed delivery\<close>

lemma register_distinct: "distinct (observers b) \<Longrightarrow> distinct (observers (register ob b))"
  by (simp add: register_def)

lemma unregister_distinct: "distinct (observers b) \<Longrightarrow> distinct (observers (unregister ob b))"
  by (simp add: unregister_def distinct_removeAll)

lemma publish_to_effect:
  "distinct obs \<Longrightarrow> set obs \<subseteq> set (observers b) \<Longrightarrow>
   observers (publish_to send_fails state obs b) =
     filter (\<lambda>ob. \<not> (ob \<in> set obs \<and> send_fails ob)) (observers b)
   \<and> delivered (publish_to send_fails state obs b) =
     delivered b @ map (\<lambda>ob. (ob, state)) (filter (\<lambda>ob. \<not> send_fails ob) obs)
   \<and> active_connections (publish_to send_fails state obs b) =
     active_connections b - int (length (filter send_fails obs))"
proof (induction obs arbitrary: b)
  case Nil
  then show ?case by simp
next
  case (Cons ob obs)
  show ?case
  proof (cases "send_fails ob")
    case True
    let ?b = "unregister ob b"
    from Cons.prems have mem: "ob \<in> set (observers b)" and nin: "ob \<notin> set obs"
      and dis: "distinct obs" and sub: "set obs \<subseteq> set (observers b)" by auto
    have obs': "observers ?b = removeAll ob (observers b)"
      and act': "active_connections ?b = active_connections b - 1"
      and del': "delivered ?b = delivered b"
      using mem by (simp_all add: unregister_def)
    have sub': "set obs \<subseteq> set (observers ?b)" using sub nin by (auto simp add: obs')
    note IH = Cons.IH [OF dis sub']
    have "filter (\<lambda>x. \<not> (x \<in> set obs \<and> send_fails x)) (removeAll ob (observers b))
        = filter (\<lambda>x. \<not> (x \<in> set (ob # obs) \<and> send_fails x)) (observers b)"
      using True by (induction "observers b") (auto simp add: removeAll_filter_not_eq filter_filter intro: filter_cong)
    with IH True show ?thesis by (simp add: obs' act' del')
  next
    case False
    let ?b = "b\<lparr> delivered := delivered b @ [(ob, state)] \<rparr>"
    from Cons.prems have dis: "distinct obs" and sub: "set obs \<subseteq> set (observers ?b)" by auto
    note IH = Cons.IH [OF dis sub]
    have "filter (\<lambda>x. \<not> (x \<in> set obs \<and> send_fails x)) (observers b)
        = filter (\<lambda>x. \<not> (x \<in> set (ob # obs) \<and> send_fails x)) (observers b)"
      using False by (auto intro: filter_cong)
    with IH False show ?thesis by simp
  qed
qed


lemma publish_distinct: "distinct (observers b) \<Longrightarrow> distinct (observers (publish send_fails state b))"
  using publish_to_effect [of "observers b" b send_fails state] by (simp add: publish_def)

text \<open>
  Claim C5.  For every call \<open>publish state\<close> on a broadcaster whose registered observers
  are pairwise different, with the sends to the observers in \<open>F\<close> failing: afterwards the
  registered observers are exactly the former ones outside \<open>F\<close>, every one of those
  has received \<open>state\<close> (the failures in between do not stop the loop), nothing was
  delivered to an observer in \<open>F\<close>, and \<open>active_connections\<close> is smaller by the
  number of registered observers in \<open>F\<close>.
\<close>

theorem publish_prunes_failed_observers:
  assumes "distinct (observers b)"
  shows "observers (publish (\<lambda>ob. ob \<in> F) state b) = filter (\<lambda>ob. ob \<notin> F) (observers b)
         \<and> delivered (publish (\<lambda>ob. ob \<in> F) state b) =
             delivered b @ map (\<lambda>ob. (ob, state)) (filter (\<lambda>ob. ob \<notin> F) (observers b))
         \<and> active_connections (publish (\<lambda>ob. ob \<in> F) state b) =
             active_connections b - int (card (F \<inter> set (observers b)))"
proof -
  have "length (filter (\<lambda>ob. ob \<in> F) (observers b)) = card (F \<inter> set (observers b))"
    using assms distinct_length_filter [of "observers b" "\<lambda>ob. ob \<in> F"] by simp
  moreover have "filter (\<lambda>ob. \<not> (ob \<in> set (observers b) \<and> ob \<in> F)) (observers b)
      = filter (\<lambda>ob. ob \<notin> F) (observers b)"
    by (auto intro: filter_cong)
  ultimately show ?thesis
    using publish_to_effect [of "observers b" b "\<lambda>ob. ob \<in> F" state] assms
    by (simp add: publish_def)
qed

text \<open>
  The scenario of the specification: five observers are registered and the delivery
  to observer 3 fails; afterwards \<open>active_connections\<close> is 4 and the other four have
  received the state.
\<close>

theorem publish_prunes_failed_observers_witness:
  "distinct (observers five_observers)
   \<and> active_connections five_observers = 5
   \<and> observers (publish (\<lambda>ob. ob \<in> {3}) ''state'' five_observers) = [1, 2, 4, 5]
   \<and> delivered (publish (\<lambda>ob. ob \<in> {3}) ''state'' five_observers) =
        [(1, ''state''), (2, ''state''), (4, ''state''), (5, ''state'')]
   \<and> active_connections (publish (\<lambda>ob. ob \<in> {3}) ''state'' five_observers) = 4"
proof -
  have five: "observers five_observers = [1, 2, 3, 4, 5]" "active_connections five_observers = 5"
    "delivered five_observers = []"
    by (simp_all add: five_observers_def register_def broadcaster_initial_def)
  have "card ({3} \<inter> set [1, 2, 3, 4, 5 :: nat]) = 1" by simp
  with five show ?thesis
    using publish_prunes_failed_observers [of five_observers "{3}" "''state''"]
    by simp
qed


end
